theory Spec2Isabelle
  imports Complex_Main "HOL-Library.Multiset"
begin

section \<open>Signal generation, selection, sizing and ranking of the signals bot\<close>

text \<open>
  A shallow embedding of \<^verbatim>\<open>strategies.py\<close>, \<^verbatim>\<open>signals_bot.py\<close> and the parts of
  \<^verbatim>\<open>config.py\<close> and \<^verbatim>\<open>data_fetcher.py\<close> they read.

  Numbers. Python's \<^verbatim>\<open>float\<close> is modelled by \<^typ>\<open>real\<close>: every arithmetic
  operation is exact, the literals \<^verbatim>\<open>0.97\<close>, \<^verbatim>\<open>1.06\<close>, ... are the decimal
  fractions they denote, and there is neither rounding error nor \<^verbatim>\<open>inf\<close>/\<^verbatim>\<open>nan\<close>.
  Python's \<^verbatim>\<open>int\<close> is \<^typ>\<open>int\<close>. Float division by zero raises
  \<^verbatim>\<open>ZeroDivisionError\<close> in Python and is an error value here.

  The global \<^verbatim>\<open>trading_config\<close> is an explicit argument of every function that reads it.
  The fields \<^verbatim>\<open>reasoning\<close> and \<^verbatim>\<open>timestamp\<close> of a signal, and the wall-clock fields of
  a result, take no part in any decision and are left out.
\<close>

subsection \<open>Errors and numeric helpers\<close>

datatype py_error = ZeroDivisionError | KeyError string | IndexError

text \<open>\<^verbatim>\<open>str(e)\<close> of the exceptions above.\<close>

fun py_str :: "py_error \<Rightarrow> string" where
  "py_str ZeroDivisionError = ''float division by zero''"
| "py_str (KeyError k) = [CHR 0x27] @ k @ [CHR 0x27]"
| "py_str IndexError = ''list index out of range''"

text \<open>\<^verbatim>\<open>a / b\<close> on floats.\<close>

definition py_div :: "real \<Rightarrow> real \<Rightarrow> py_error + real" where
  "py_div a b = (if b = 0 then Inl ZeroDivisionError else Inr (a / b))"

text \<open>\<^verbatim>\<open>int(x)\<close> on a float truncates towards zero.\<close>

definition py_int :: "real \<Rightarrow> int" where
  "py_int x = (if 0 \<le> x then \<lfloor>x\<rfloor> else \<lceil>x\<rceil>)"

text \<open>\<^verbatim>\<open>round(x, n)\<close>: to \<open>n\<close> decimals, a tie going to the even neighbour.\<close>

definition py_round :: "real \<Rightarrow> nat \<Rightarrow> real" where
  "py_round x n =
     (let y = x * 10 ^ n;
          f = \<lfloor>y\<rfloor>;
          d = y - of_int f
      in of_int (if d < 1 / 2 then f
                 else if 1 / 2 < d then f + 1
                 else if even f then f else f + 1) / 10 ^ n)"

text \<open>
  \<^verbatim>\<open>xs.sort(key=key, reverse=True)\<close>: CPython reverses the list, sorts it stably in
  ascending key order and reverses it again, so that equal keys keep their original order.
\<close>

definition py_sort_reverse :: "('a \<Rightarrow> real) \<Rightarrow> 'a list \<Rightarrow> 'a list" where
  "py_sort_reverse key xs = rev (sort_key key (rev xs))"

subsection \<open>Configuration (\<^verbatim>\<open>config.py\<close>)\<close>

record TradingConfig =
  max_risk_per_trade :: real
  min_risk_reward_ratio :: real
  max_position_size :: real
  volume_threshold_multiplier :: real
  gap_threshold_percent :: real
  strategy_weights :: "string \<rightharpoonup> real"

definition trading_config :: TradingConfig where
  "trading_config =
     \<lparr> max_risk_per_trade = 0.02,
       min_risk_reward_ratio = 2.0,
       max_position_size = 0.10,
       volume_threshold_multiplier = 2.0,
       gap_threshold_percent = 3.0,
       strategy_weights =
         [''gap_momentum'' \<mapsto> 0.4, ''volume_breakout'' \<mapsto> 0.3, ''premarket_momentum'' \<mapsto> 0.3] \<rparr>"

subsection \<open>Data (\<^verbatim>\<open>data_fetcher.StockData\<close>, \<^verbatim>\<open>strategies.StrategySignal\<close>)\<close>

record StockData =
  symbol :: string
  current_price :: real
  previous_close :: real
  premarket_price :: "real option"
  premarket_volume :: int
  regular_volume :: int
  avg_volume :: real
  gap_percent :: real
  market_cap :: real

record StrategySignal =
  signal_symbol :: string
  strategy_name :: string
  signal_type :: string
  confidence :: real
  entry_price :: real
  stop_loss :: real
  take_profit :: real
  risk_reward_ratio :: real

text \<open>
  The position-sizing dictionary. \<^verbatim>\<open>shares\<close>, \<^verbatim>\<open>position_value\<close> and \<^verbatim>\<open>risk_amount\<close>
  are present in every dictionary the code builds; the other keys are absent from some of
  them, and an absent key is \<open>None\<close>.
\<close>

record position_info =
  shares :: int
  position_value :: real
  risk_amount :: real
  position_percent :: "real option"
  potential_profit :: "real option"
  potential_loss :: "real option"

subsection \<open>Position sizing\<close>

text \<open>\<^verbatim>\<open>account_value = 100000\<close>, a local constant of both sizing functions.\<close>

definition account_value :: real where
  "account_value = 100000"

text \<open>\<^verbatim>\<open>BaseStrategy.calculate_position_sizing\<close> (strategies.py, lines 43-66).\<close>

definition calculate_position_sizing ::
  "TradingConfig \<Rightarrow> StockData \<Rightarrow> real \<Rightarrow> real \<Rightarrow> py_error + position_info" where
  "calculate_position_sizing cfg stock_data entry stop =
     (let risk_budget = account_value * max_risk_per_trade cfg;
          price_risk = \<bar>entry - stop\<bar>
      in if price_risk = 0 then
           Inr \<lparr> shares = 0, position_value = 0, risk_amount = 0,
                 position_percent = None, potential_profit = None, potential_loss = None \<rparr>
         else
           let shares1 = py_int (risk_budget / price_risk);
               position_value1 = of_int shares1 * entry;
               max_position_value = account_value * max_position_size cfg
           in if position_value1 > max_position_value then
                (case py_div max_position_value entry of
                   Inl e \<Rightarrow> Inl e
                 | Inr q \<Rightarrow>
                     let shares2 = py_int q;
                         position_value2 = of_int shares2 * entry
                     in Inr \<lparr> shares = shares2, position_value = position_value2,
                              risk_amount = of_int shares2 * price_risk,
                              position_percent = Some ((position_value2 / account_value) * 100),
                              potential_profit = None, potential_loss = None \<rparr>)
              else
                Inr \<lparr> shares = shares1, position_value = position_value1,
                      risk_amount = of_int shares1 * price_risk,
                      position_percent = Some ((position_value1 / account_value) * 100),
                      potential_profit = None, potential_loss = None \<rparr>)"

text \<open>\<^verbatim>\<open>SignalsBot._calculate_position_info\<close> (signals_bot.py, lines 85-110).\<close>

definition calculate_position_info ::
  "TradingConfig \<Rightarrow> StrategySignal \<Rightarrow> StockData \<Rightarrow> py_error + position_info" where
  "calculate_position_info cfg signal stock_data =
     (let risk_budget = account_value * max_risk_per_trade cfg;
          price_risk = \<bar>entry_price signal - stop_loss signal\<bar>
      in if price_risk = 0 then
           Inr \<lparr> shares = 0, position_value = 0, risk_amount = 0,
                 position_percent = Some 0, potential_profit = None, potential_loss = None \<rparr>
         else
           let shares1 = py_int (risk_budget / price_risk);
               position_value1 = of_int shares1 * entry_price signal;
               max_position_value = account_value * max_position_size cfg
           in if position_value1 > max_position_value then
                (case py_div max_position_value (entry_price signal) of
                   Inl e \<Rightarrow> Inl e
                 | Inr q \<Rightarrow>
                     let shares2 = py_int q;
                         position_value2 = of_int shares2 * entry_price signal
                     in Inr \<lparr> shares = shares2, position_value = position_value2,
                              risk_amount = of_int shares2 * price_risk,
                              position_percent = Some ((position_value2 / account_value) * 100),
                              potential_profit =
                                Some (of_int shares2 * (take_profit signal - entry_price signal)),
                              potential_loss =
                                Some (of_int shares2 * (entry_price signal - stop_loss signal)) \<rparr>)
              else
                Inr \<lparr> shares = shares1, position_value = position_value1,
                      risk_amount = of_int shares1 * price_risk,
                      position_percent = Some ((position_value1 / account_value) * 100),
                      potential_profit =
                        Some (of_int shares1 * (take_profit signal - entry_price signal)),
                      potential_loss =
                        Some (of_int shares1 * (entry_price signal - stop_loss signal)) \<rparr>)"

subsection \<open>The three strategies (\<^verbatim>\<open>strategies.py\<close>)\<close>

datatype Strategy = GapMomentumStrategy | VolumeBreakoutStrategy | PremarketMomentumStrategy

text \<open>\<^verbatim>\<open>self.name\<close>, as set by each constructor.\<close>

fun name :: "Strategy \<Rightarrow> string" where
  "name GapMomentumStrategy = ''Gap Momentum''"
| "name VolumeBreakoutStrategy = ''Volume Breakout''"
| "name PremarketMomentumStrategy = ''Premarket Momentum''"

text \<open>
  Each \<^verbatim>\<open>analyze\<close> is a \<^verbatim>\<open>try\<close> block whose handler returns \<^verbatim>\<open>None\<close>. The body of
  the block is modelled first, with the exception as \<open>Inl\<close>; \<open>try_except\<close> is the handler.
\<close>

definition try_except :: "py_error + 'a option \<Rightarrow> 'a option" where
  "try_except r = (case r of Inl e \<Rightarrow> None | Inr v \<Rightarrow> v)"

text \<open>\<^verbatim>\<open>GapMomentumStrategy.analyze\<close> (lines 74-134).\<close>

definition gap_momentum_body :: "TradingConfig \<Rightarrow> StockData \<Rightarrow> py_error + StrategySignal option" where
  "gap_momentum_body cfg stock_data =
     (let gap = gap_percent stock_data;
          price = current_price stock_data;
          volume_ratio =
            (if avg_volume stock_data > 0
             then of_int (regular_volume stock_data + premarket_volume stock_data)
                    / avg_volume stock_data
             else 1.0)
      in if gap \<ge> gap_threshold_percent cfg then
           (if volume_ratio \<ge> volume_threshold_multiplier cfg then
              let entry = price;
                  stop = price * 0.97;
                  target = price * 1.06;
                  conf = min 0.9 ((gap / 10.0) * (volume_ratio / 3.0))
              in (case py_div (target - entry) (entry - stop) of
                    Inl e \<Rightarrow> Inl e
                  | Inr rr \<Rightarrow>
                      Inr (Some \<lparr> signal_symbol = symbol stock_data,
                                  strategy_name = name GapMomentumStrategy,
                                  signal_type = ''BUY'', confidence = conf,
                                  entry_price = entry, stop_loss = stop, take_profit = target,
                                  risk_reward_ratio = rr \<rparr>))
            else Inr None)
         else if gap \<le> - gap_threshold_percent cfg then
           (if volume_ratio \<ge> volume_threshold_multiplier cfg then
              let entry = price;
                  stop = price * 0.95;
                  target = price * 1.08;
                  conf = min 0.8 ((\<bar>gap\<bar> / 15.0) * (volume_ratio / 3.0))
              in (case py_div (target - entry) (entry - stop) of
                    Inl e \<Rightarrow> Inl e
                  | Inr rr \<Rightarrow>
                      Inr (Some \<lparr> signal_symbol = symbol stock_data,
                                  strategy_name = name GapMomentumStrategy,
                                  signal_type = ''BUY'', confidence = conf,
                                  entry_price = entry, stop_loss = stop, take_profit = target,
                                  risk_reward_ratio = rr \<rparr>))
            else Inr None)
         else Inr None)"

text \<open>
  \<^verbatim>\<open>VolumeBreakoutStrategy.analyze\<close> (lines 142-195). The two branches on the gap set
  \<^verbatim>\<open>stop_loss\<close>, \<^verbatim>\<open>take_profit\<close> and \<^verbatim>\<open>signal_type\<close>; \<open>volume_breakout_signal\<close> is the code
  they share after the branch (lines 175-189).
\<close>

definition volume_breakout_signal ::
  "StockData \<Rightarrow> real \<Rightarrow> real \<Rightarrow> real \<Rightarrow> real \<Rightarrow> string \<Rightarrow> py_error + StrategySignal option" where
  "volume_breakout_signal stock_data volume_ratio entry stop target kind =
     (let conf = min 0.85 (volume_ratio / 5.0)
      in case py_div \<bar>target - entry\<bar> \<bar>entry - stop\<bar> of
           Inl e \<Rightarrow> Inl e
         | Inr rr_ratio \<Rightarrow>
             Inr (Some \<lparr> signal_symbol = symbol stock_data,
                         strategy_name = name VolumeBreakoutStrategy,
                         signal_type = kind, confidence = conf,
                         entry_price = entry, stop_loss = stop,
                         take_profit = target, risk_reward_ratio = rr_ratio \<rparr>))"

definition volume_breakout_body :: "TradingConfig \<Rightarrow> StockData \<Rightarrow> py_error + StrategySignal option" where
  "volume_breakout_body cfg stock_data =
     (let price = current_price stock_data;
          total_volume = regular_volume stock_data + premarket_volume stock_data
      in if avg_volume stock_data = 0 then Inr None
         else
           let volume_ratio = of_int total_volume / avg_volume stock_data
           in if volume_ratio \<ge> volume_threshold_multiplier cfg * 1.5 then
                let gap = gap_percent stock_data
                in if gap > 1.0 then
                     volume_breakout_signal stock_data volume_ratio
                       price (price * 0.96) (price * 1.08) ''BUY''
                   else if gap < - 1.0 then
                     volume_breakout_signal stock_data volume_ratio
                       price (price * 1.04) (price * 0.92) ''SELL''
                   else Inr None
              else Inr None)"

text \<open>
  \<^verbatim>\<open>PremarketMomentumStrategy.analyze\<close> (lines 203-261).
  \<^verbatim>\<open>stock_data.premarket_price or current_price\<close> takes the current price when the
  premarket price is \<^verbatim>\<open>None\<close> or zero. \<open>premarket_momentum_signal\<close> is the code the two
  branches on the move share (lines 241-255).
\<close>

definition premarket_momentum_signal ::
  "StockData \<Rightarrow> real \<Rightarrow> real \<Rightarrow> real \<Rightarrow> real \<Rightarrow> real \<Rightarrow> py_error + StrategySignal option" where
  "premarket_momentum_signal stock_data premarket_move premarket_volume_ratio entry stop target =
     (let conf = min 0.8 ((\<bar>premarket_move\<bar> / 8.0) * premarket_volume_ratio)
      in case py_div (target - entry) (entry - stop) of
           Inl e \<Rightarrow> Inl e
         | Inr rr_ratio \<Rightarrow>
             Inr (Some \<lparr> signal_symbol = symbol stock_data,
                         strategy_name = name PremarketMomentumStrategy,
                         signal_type = ''BUY'', confidence = conf,
                         entry_price = entry, stop_loss = stop,
                         take_profit = target, risk_reward_ratio = rr_ratio \<rparr>))"

definition premarket_momentum_body :: "TradingConfig \<Rightarrow> StockData \<Rightarrow> py_error + StrategySignal option" where
  "premarket_momentum_body cfg stock_data =
     (let price = current_price stock_data;
          prev = previous_close stock_data;
          pm_price = (case premarket_price stock_data of
                        None \<Rightarrow> price
                      | Some v \<Rightarrow> if v = 0 then price else v)
      in if prev > 0 then
           let premarket_move = ((pm_price - prev) / prev) * 100
           in if \<bar>premarket_move\<bar> \<ge> 2.0 then
                let premarket_volume_ratio =
                      (if avg_volume stock_data > 0 \<and> premarket_volume stock_data > 0
                       then of_int (premarket_volume stock_data) / (avg_volume stock_data * 0.1)
                       else 1.0)
                in if premarket_move > 2.0 then
                     premarket_momentum_signal stock_data premarket_move premarket_volume_ratio
                       price (price * 0.97) (price * 1.06)
                   else if premarket_move < - 2.0 then
                     premarket_momentum_signal stock_data premarket_move premarket_volume_ratio
                       price (price * 0.94) (price * 1.09)
                   else Inr None
              else Inr None
         else Inr None)"

fun analyze :: "Strategy \<Rightarrow> TradingConfig \<Rightarrow> StockData \<Rightarrow> StrategySignal option" where
  "analyze GapMomentumStrategy cfg stock_data = try_except (gap_momentum_body cfg stock_data)"
| "analyze VolumeBreakoutStrategy cfg stock_data = try_except (volume_breakout_body cfg stock_data)"
| "analyze PremarketMomentumStrategy cfg stock_data =
     try_except (premarket_momentum_body cfg stock_data)"

subsection \<open>\<^verbatim>\<open>StrategyManager\<close>\<close>

text \<open>\<^verbatim>\<open>self.strategies\<close>, in the order \<^verbatim>\<open>__init__\<close> registers them (lines 266-271).\<close>

definition strategies :: "Strategy list" where
  "strategies = [GapMomentumStrategy, VolumeBreakoutStrategy, PremarketMomentumStrategy]"

text \<open>
  The loop of \<^verbatim>\<open>analyze_stock\<close> (lines 273-287) over the strategies still to run, with
  the list \<^verbatim>\<open>signals\<close> built so far. Nothing in the loop body raises once \<^verbatim>\<open>analyze\<close> has
  returned, so its own \<^verbatim>\<open>try\<close> has no branch here.
\<close>

fun analyze_stock_loop ::
  "TradingConfig \<Rightarrow> StockData \<Rightarrow> Strategy list \<Rightarrow> StrategySignal list \<Rightarrow> StrategySignal list" where
  "analyze_stock_loop cfg stock_data [] signals = signals"
| "analyze_stock_loop cfg stock_data (strategy # rest) signals =
     analyze_stock_loop cfg stock_data rest
       (case analyze strategy cfg stock_data of
          None \<Rightarrow> signals
        | Some signal \<Rightarrow>
            if confidence signal > 0.3 \<and> risk_reward_ratio signal \<ge> min_risk_reward_ratio cfg
            then signals @ [signal] else signals)"

definition analyze_stock :: "TradingConfig \<Rightarrow> StockData \<Rightarrow> StrategySignal list" where
  "analyze_stock cfg stock_data = analyze_stock_loop cfg stock_data strategies []"

text \<open>\<^verbatim>\<open>.lower()\<close> on an ASCII string, and \<^verbatim>\<open>.replace(' ', '_')\<close>.\<close>

definition lower_char :: "char \<Rightarrow> char" where
  "lower_char c =
     (case map_of (zip ''ABCDEFGHIJKLMNOPQRSTUVWXYZ'' ''abcdefghijklmnopqrstuvwxyz'') c of
        None \<Rightarrow> c
      | Some l \<Rightarrow> l)"

definition normalize_name :: "string \<Rightarrow> string" where
  "normalize_name s = map (\<lambda>c. if c = CHR '' '' then CHR ''_'' else c) (map lower_char s)"

text \<open>\<^verbatim>\<open>weighted_score\<close> of one signal (lines 298-301): the weight defaults to 0.5.\<close>

definition weighted_score :: "TradingConfig \<Rightarrow> StrategySignal \<Rightarrow> real" where
  "weighted_score cfg signal =
     confidence signal *
       (case strategy_weights cfg (normalize_name (strategy_name signal)) of
          None \<Rightarrow> 0.5
        | Some w \<Rightarrow> w)"

text \<open>
  \<^verbatim>\<open>get_best_signal\<close> (lines 289-306). \<^verbatim>\<open>weighted_signals[0]\<close> raises \<^verbatim>\<open>IndexError\<close>
  on an empty list.
\<close>

definition get_best_signal ::
  "TradingConfig \<Rightarrow> StrategySignal list \<Rightarrow> py_error + StrategySignal option" where
  "get_best_signal cfg signals =
     (if signals = [] then Inr None
      else
        let weighted_signals = map (\<lambda>signal. (weighted_score cfg signal, signal)) signals
        in (case py_sort_reverse fst weighted_signals of
              [] \<Rightarrow> Inl IndexError
            | best # _ \<Rightarrow> Inr (Some (snd best))))"

subsection \<open>The orchestrator (\<^verbatim>\<open>signals_bot.SignalsBot\<close>)\<close>

text \<open>
  The dictionaries of a result. The sizing block of a reported signal has the keys of
  \<^typ>\<open>position_info\<close> and is a value of that type; the keys \<^verbatim>\<open>symbol\<close>,
  \<^verbatim>\<open>confidence\<close>, ... of a reported signal carry the prefix \<open>out_\<close>, the keys of the
  \<^verbatim>\<open>config\<close> block the prefix \<open>cfg_\<close>. A key of \<^verbatim>\<open>summary\<close> that only
  \<^verbatim>\<open>_create_result\<close> or only \<^verbatim>\<open>_create_empty_result\<close> writes is an option.
\<close>

record volume_info =
  current_volume :: int
  out_avg_volume :: int
  volume_ratio :: real

record signal_dict =
  out_symbol :: string
  out_strategy :: string
  out_signal_type :: string
  out_confidence :: real
  out_current_price :: real
  out_entry_price :: real
  out_stop_loss :: real
  out_take_profit :: real
  out_risk_reward_ratio :: real
  out_gap_percent :: real
  position_sizing :: position_info
  out_volume_info :: volume_info

record summary_dict =
  total_stocks_analyzed :: nat
  signals_generated :: nat
  avg_confidence :: "real option"
  avg_risk_reward :: "real option"
  buy_signals :: "nat option"
  sell_signals :: "nat option"
  total_risk_amount :: "real option"
  total_position_value :: "real option"
  error :: "string option"

record config_dict =
  cfg_max_risk_per_trade :: real
  cfg_min_risk_reward_ratio :: real
  cfg_gap_threshold_percent :: real
  cfg_volume_threshold_multiplier :: real

record result =
  summary :: summary_dict
  signals :: "signal_dict list"
  config :: config_dict

definition config_block :: "TradingConfig \<Rightarrow> config_dict" where
  "config_block cfg =
     \<lparr> cfg_max_risk_per_trade = max_risk_per_trade cfg,
       cfg_min_risk_reward_ratio = min_risk_reward_ratio cfg,
       cfg_gap_threshold_percent = gap_threshold_percent cfg,
       cfg_volume_threshold_multiplier = volume_threshold_multiplier cfg \<rparr>"

text \<open>\<^verbatim>\<open>position_info[key]\<close> raises \<^verbatim>\<open>KeyError\<close> on an absent key.\<close>

definition lookup_key :: "string \<Rightarrow> 'a option \<Rightarrow> py_error + 'a" where
  "lookup_key k v = (case v of None \<Rightarrow> Inl (KeyError k) | Some x \<Rightarrow> Inr x)"

text \<open>The dictionary \<^verbatim>\<open>_create_result\<close> builds for one signal (lines 117-142).\<close>

definition create_signal_dict ::
  "StrategySignal \<times> StockData \<times> position_info \<Rightarrow> py_error + signal_dict" where
  "create_signal_dict x =
     (case x of (signal, stock_data, info) \<Rightarrow>
        (case lookup_key ''position_percent'' (position_percent info) of
           Inl e \<Rightarrow> Inl e
         | Inr percent \<Rightarrow>
        (case lookup_key ''potential_profit'' (potential_profit info) of
           Inl e \<Rightarrow> Inl e
         | Inr profit \<Rightarrow>
        (case lookup_key ''potential_loss'' (potential_loss info) of
           Inl e \<Rightarrow> Inl e
         | Inr loss \<Rightarrow>
             Inr \<lparr> out_symbol = signal_symbol signal,
                   out_strategy = strategy_name signal,
                   out_signal_type = signal_type signal,
                   out_confidence = py_round (confidence signal) 3,
                   out_current_price = py_round (current_price stock_data) 2,
                   out_entry_price = py_round (entry_price signal) 2,
                   out_stop_loss = py_round (stop_loss signal) 2,
                   out_take_profit = py_round (take_profit signal) 2,
                   out_risk_reward_ratio = py_round (risk_reward_ratio signal) 2,
                   out_gap_percent = py_round (gap_percent stock_data) 2,
                   position_sizing =
                     \<lparr> shares = shares info,
                       position_value = py_round (position_value info) 2,
                       risk_amount = py_round (risk_amount info) 2,
                       position_percent = Some (py_round percent 1),
                       potential_profit = Some (py_round profit 2),
                       potential_loss = Some (py_round loss 2) \<rparr>,
                   out_volume_info =
                     \<lparr> current_volume = regular_volume stock_data + premarket_volume stock_data,
                       out_avg_volume = py_int (avg_volume stock_data),
                       volume_ratio =
                         py_round (of_int (regular_volume stock_data + premarket_volume stock_data)
                                     / max (avg_volume stock_data) 1) 2 \<rparr> \<rparr>))))"

text \<open>The loop of \<^verbatim>\<open>_create_result\<close> over \<^verbatim>\<open>signals_data\<close> (lines 116-143).\<close>

fun create_signals_list ::
  "(StrategySignal \<times> StockData \<times> position_info) list \<Rightarrow> signal_dict list
     \<Rightarrow> py_error + signal_dict list" where
  "create_signals_list [] signals_list = Inr signals_list"
| "create_signals_list (x # rest) signals_list =
     (case create_signal_dict x of
        Inl e \<Rightarrow> Inl e
      | Inr signal_dict \<Rightarrow> create_signals_list rest (signals_list @ [signal_dict]))"

text \<open>The summary statistics of \<^verbatim>\<open>_create_result\<close> (lines 146-155).\<close>

definition create_summary :: "nat \<Rightarrow> signal_dict list \<Rightarrow> summary_dict" where
  "create_summary n signals_list =
     \<lparr> total_stocks_analyzed = n,
       signals_generated = length signals_list,
       avg_confidence =
         Some (if signals_list \<noteq> []
               then py_round (sum_list (map out_confidence signals_list)
                                / of_nat (length signals_list)) 3
               else 0),
       avg_risk_reward =
         Some (if signals_list \<noteq> []
               then py_round (sum_list (map out_risk_reward_ratio signals_list)
                                / of_nat (length signals_list)) 2
               else 0),
       buy_signals = Some (length (filter (\<lambda>s. out_signal_type s = ''BUY'') signals_list)),
       sell_signals = Some (length (filter (\<lambda>s. out_signal_type s = ''SELL'') signals_list)),
       total_risk_amount =
         Some (py_round (sum_list (map (\<lambda>s. risk_amount (position_sizing s)) signals_list)) 2),
       total_position_value =
         Some (py_round (sum_list (map (\<lambda>s. position_value (position_sizing s)) signals_list)) 2),
       error = None \<rparr>"

text \<open>\<^verbatim>\<open>_create_result\<close> (lines 112-168); \<open>n\<close> is \<^verbatim>\<open>len(all_stock_data)\<close>.\<close>

definition create_result ::
  "TradingConfig \<Rightarrow> (StrategySignal \<times> StockData \<times> position_info) list \<Rightarrow> nat
     \<Rightarrow> py_error + result" where
  "create_result cfg signals_data n =
     (case create_signals_list signals_data [] of
        Inl e \<Rightarrow> Inl e
      | Inr signals_list \<Rightarrow>
          Inr \<lparr> summary = create_summary n signals_list,
                signals = signals_list,
                config = config_block cfg \<rparr>)"

text \<open>\<^verbatim>\<open>_create_empty_result\<close> (lines 170-187).\<close>

definition create_empty_result :: "TradingConfig \<Rightarrow> string \<Rightarrow> result" where
  "create_empty_result cfg reason =
     \<lparr> summary =
         \<lparr> total_stocks_analyzed = 0, signals_generated = 0,
           avg_confidence = None, avg_risk_reward = None,
           buy_signals = None, sell_signals = None,
           total_risk_amount = None, total_position_value = None,
           error = Some reason \<rparr>,
       signals = [],
       config = config_block cfg \<rparr>"

text \<open>
  The loop of \<^verbatim>\<open>run_analysis\<close> over \<^verbatim>\<open>stock_data.items()\<close> (lines 47-56). The
  dictionary of snapshots is the list of its items in iteration order; \<^verbatim>\<open>all_signals\<close> is
  the list built so far.
\<close>

fun collect_signals ::
  "TradingConfig \<Rightarrow> (string \<times> StockData) list \<Rightarrow> (StrategySignal \<times> StockData \<times> position_info) list
     \<Rightarrow> py_error + (StrategySignal \<times> StockData \<times> position_info) list" where
  "collect_signals cfg [] all_signals = Inr all_signals"
| "collect_signals cfg ((key, data) # rest) all_signals =
     (let sigs = analyze_stock cfg data
      in if sigs \<noteq> [] then
           (case get_best_signal cfg sigs of
              Inl e \<Rightarrow> Inl e
            | Inr None \<Rightarrow> collect_signals cfg rest all_signals
            | Inr (Some best_signal) \<Rightarrow>
                (case calculate_position_info cfg best_signal data of
                   Inl e \<Rightarrow> Inl e
                 | Inr info \<Rightarrow>
                     collect_signals cfg rest (all_signals @ [(best_signal, data, info)])))
         else collect_signals cfg rest all_signals)"

text \<open>The filter of lines 59-62 and the sort key of line 66.\<close>

definition is_valid :: "TradingConfig \<Rightarrow> StrategySignal \<times> StockData \<times> position_info \<Rightarrow> bool" where
  "is_valid cfg x =
     (confidence (fst x) \<ge> 0.4 \<and> risk_reward_ratio (fst x) \<ge> min_risk_reward_ratio cfg)"

definition ranking_key :: "StrategySignal \<times> StockData \<times> position_info \<Rightarrow> real" where
  "ranking_key x = confidence (fst x) * risk_reward_ratio (fst x)"

text \<open>\<^verbatim>\<open>top_signals\<close>: filter, sort and truncate \<^verbatim>\<open>all_signals\<close> (lines 58-71).\<close>

definition top_signals ::
  "TradingConfig \<Rightarrow> (StrategySignal \<times> StockData \<times> position_info) list
     \<Rightarrow> (StrategySignal \<times> StockData \<times> position_info) list" where
  "top_signals cfg all_signals =
     (let valid_signals = filter (is_valid cfg) all_signals
      in take 10 (py_sort_reverse ranking_key valid_signals))"

text \<open>
  \<^verbatim>\<open>run_analysis\<close> (lines 30-83) on the fetched snapshots: the body of its \<^verbatim>\<open>try\<close>
  block, then the handler, which turns any exception into an empty result.
\<close>

definition run_analysis_body :: "TradingConfig \<Rightarrow> (string \<times> StockData) list \<Rightarrow> py_error + result" where
  "run_analysis_body cfg stock_data =
     (if stock_data = [] then Inr (create_empty_result cfg ''No stock data available'')
      else
        (case collect_signals cfg stock_data [] of
           Inl e \<Rightarrow> Inl e
         | Inr all_signals \<Rightarrow>
             create_result cfg (top_signals cfg all_signals) (length stock_data)))"

definition run_analysis :: "TradingConfig \<Rightarrow> (string \<times> StockData) list \<Rightarrow> result" where
  "run_analysis cfg stock_data =
     (case run_analysis_body cfg stock_data of
        Inl e \<Rightarrow> create_empty_result cfg (''Error: '' @ py_str e)
      | Inr r \<Rightarrow> r)"

subsection \<open>Snapshots and signals of the scenarios\<close>

text \<open>
  Concrete inputs on which the theorems below are instantiated. Every snapshot passes
  \<^verbatim>\<open>filter_stocks_by_criteria\<close> of the fetcher (price within 1 and 500, some volume, a
  gap of at least 1 percent) except \<open>snapshot_zero_close\<close>, whose previous close is zero.
\<close>

definition snapshot_gap_up :: StockData where
  "snapshot_gap_up =
     \<lparr> symbol = ''AAPL'', current_price = 105, previous_close = 100,
       premarket_price = None, premarket_volume = 500, regular_volume = 2000,
       avg_volume = 1000, gap_percent = 5, market_cap = 0 \<rparr>"

definition snapshot_gap_down :: StockData where
  "snapshot_gap_down =
     \<lparr> symbol = ''TSLA'', current_price = 100, previous_close = 125,
       premarket_price = None, premarket_volume = 0, regular_volume = 4000,
       avg_volume = 1000, gap_percent = - 20, market_cap = 0 \<rparr>"

definition snapshot_no_baseline :: StockData where
  "snapshot_no_baseline =
     \<lparr> symbol = ''NVDA'', current_price = 105, previous_close = 100,
       premarket_price = None, premarket_volume = 0, regular_volume = 4000,
       avg_volume = 0, gap_percent = 5, market_cap = 0 \<rparr>"

definition snapshot_quiet :: StockData where
  "snapshot_quiet =
     \<lparr> symbol = ''KO'', current_price = 203 / 2, previous_close = 100,
       premarket_price = None, premarket_volume = 0, regular_volume = 1000,
       avg_volume = 1000, gap_percent = 3 / 2, market_cap = 0 \<rparr>"

definition snapshot_zero_close :: StockData where
  "snapshot_zero_close =
     \<lparr> symbol = ''META'', current_price = 100, previous_close = 0,
       premarket_price = Some 110, premarket_volume = 0, regular_volume = 1000,
       avg_volume = 1000, gap_percent = 0, market_cap = 0 \<rparr>"

definition snapshot_tie :: StockData where
  "snapshot_tie =
     \<lparr> symbol = ''MSFT'', current_price = 102, previous_close = 100,
       premarket_price = Some 108, premarket_volume = 0, regular_volume = 4000,
       avg_volume = 1000, gap_percent = 2, market_cap = 0 \<rparr>"

definition signal_scenario_b :: StrategySignal where
  "signal_scenario_b =
     \<lparr> signal_symbol = ''AAPL'', strategy_name = ''Gap Momentum'', signal_type = ''BUY'',
       confidence = 1 / 2, entry_price = 100, stop_loss = 97, take_profit = 106,
       risk_reward_ratio = 2 \<rparr>"

text \<open>
  The selections of \<open>snapshot_gap_up\<close> and \<open>snapshot_gap_down\<close> under the default
  configuration, with their sizing: both have the ranking key \<open>0.8 * 2\<close>.
\<close>

definition selection_gap_up :: "StrategySignal \<times> StockData \<times> position_info" where
  "selection_gap_up =
     (\<lparr> signal_symbol = ''AAPL'', strategy_name = ''Premarket Momentum'', signal_type = ''BUY'',
        confidence = 4 / 5, entry_price = 105, stop_loss = 2037 / 20, take_profit = 1113 / 10,
        risk_reward_ratio = 2 \<rparr>,
      snapshot_gap_up,
      \<lparr> shares = 95, position_value = 9975, risk_amount = 1197 / 4,
        position_percent = Some (399 / 40), potential_profit = Some (1197 / 2),
        potential_loss = Some (1197 / 4) \<rparr>)"

definition selection_gap_down :: "StrategySignal \<times> StockData \<times> position_info" where
  "selection_gap_down =
     (\<lparr> signal_symbol = ''TSLA'', strategy_name = ''Volume Breakout'', signal_type = ''SELL'',
        confidence = 4 / 5, entry_price = 100, stop_loss = 104, take_profit = 92,
        risk_reward_ratio = 2 \<rparr>,
      snapshot_gap_down,
      \<lparr> shares = 100, position_value = 10000, risk_amount = 400,
        position_percent = Some 10, potential_profit = Some (- 800),
        potential_loss = Some (- 400) \<rparr>)"

section \<open>Properties\<close>

subsection \<open>The reversed stable sort\<close>

lemma mset_py_sort_reverse: "mset (py_sort_reverse k xs) = mset xs"
  by (simp add: py_sort_reverse_def)

lemma set_py_sort_reverse: "set (py_sort_reverse k xs) = set xs"
  by (simp add: py_sort_reverse_def)

lemma length_py_sort_reverse: "length (py_sort_reverse k xs) = length xs"
  by (simp add: py_sort_reverse_def)

lemma sorted_py_sort_reverse: "sorted_wrt (\<lambda>a b. k a \<ge> k b) (py_sort_reverse k xs)"
proof -
  have "sorted (map k (sort_key k (rev xs)))"
    by (rule sorted_sort_key)
  then have "sorted_wrt (\<lambda>a b. k a \<le> k b) (sort_key k (rev xs))"
    by (simp add: sorted_map)
  then show ?thesis
    by (simp add: py_sort_reverse_def sorted_wrt_rev)
qed

lemma stable_py_sort_reverse:
  "filter (\<lambda>y. k y = c) (py_sort_reverse k xs) = filter (\<lambda>y. k y = c) xs"
  by (simp add: py_sort_reverse_def rev_filter [symmetric] sort_key_stable)

text \<open>
  The head of the sorted list is the first element of the input among those of greatest
  key: everything before it in the input has a strictly smaller key.
\<close>

lemma py_sort_reverse_first:
  assumes "xs \<noteq> []"
  shows "\<exists>pre b post rest. xs = pre @ b # post \<and> py_sort_reverse k xs = b # rest
           \<and> (\<forall>t\<in>set pre. k t < k b) \<and> (\<forall>t\<in>set post. k t \<le> k b)"
proof -
  have "py_sort_reverse k xs \<noteq> []"
    using assms set_py_sort_reverse [of k xs] by (metis set_empty)
  then obtain b rest where ys: "py_sort_reverse k xs = b # rest"
    by (cases "py_sort_reverse k xs") auto
  have "sorted_wrt (\<lambda>a b. k a \<ge> k b) (b # rest)"
    using sorted_py_sort_reverse [of k xs] ys by simp
  then have "\<forall>t\<in>set (b # rest). k t \<le> k b"
    by auto
  moreover have "set xs = set (b # rest)"
    using set_py_sort_reverse [of k xs] ys by simp
  ultimately have le: "\<forall>t\<in>set xs. k t \<le> k b"
    by blast
  have "filter (\<lambda>y. k y = k b) xs = b # filter (\<lambda>y. k y = k b) rest"
    using stable_py_sort_reverse [of k "k b" xs] ys by simp
  then obtain pre post where d: "xs = pre @ b # post" "\<forall>u\<in>set pre. k u \<noteq> k b"
    by (auto simp: filter_eq_Cons_iff)
  have "\<forall>t\<in>set pre. k t < k b"
    using d le by (auto simp: less_le)
  moreover have "\<forall>t\<in>set post. k t \<le> k b"
    using d le by simp
  ultimately show ?thesis
    using d ys by blast
qed

subsection \<open>Position sizing\<close>

text \<open>
  Claim C1. Scenario B: for a signal with entry price 100 and stop loss 97 under the
  default configuration, the risk budget gives \<open>int(2000 / 3) = 666\<close> shares, worth
  66600, which exceeds the allowed 10000, so the share count is recomputed as
  \<open>int(10000 / 100) = 100\<close>; this holds for the orchestrator's sizing and for the
  strategy base class's. In general, whenever the price risk is not zero and the first
  position value exceeds the allowed value, the final share count is
  \<open>int(max_position_value / entry_price)\<close>, whatever the risk budget gave. (An entry price
  of zero can only exceed a negative allowed value; the recomputing division then raises.)
\<close>

theorem position_size_cap_wins:
  "(entry_price s = 100 \<and> stop_loss s = 97 \<longrightarrow>
      py_int (account_value * max_risk_per_trade trading_config
                / \<bar>entry_price s - stop_loss s\<bar>) = 666
      \<and> (666::real) * entry_price s = 66600
      \<and> account_value * max_position_size trading_config = 10000
      \<and> py_int (10000 / 100) = 100
      \<and> (\<exists>d. calculate_position_info trading_config s sd = Inr d
               \<and> shares d = 100 \<and> position_value d = 10000)
      \<and> (\<exists>d. calculate_position_sizing trading_config sd (entry_price s) (stop_loss s) = Inr d
               \<and> shares d = 100 \<and> position_value d = 10000))
   \<and> (entry_price s \<noteq> stop_loss s
        \<and> of_int (py_int (account_value * max_risk_per_trade cfg
                             / \<bar>entry_price s - stop_loss s\<bar>)) * entry_price s
            > account_value * max_position_size cfg \<longrightarrow>
        (if entry_price s = 0
         then calculate_position_info cfg s sd = Inl ZeroDivisionError
            \<and> calculate_position_sizing cfg sd (entry_price s) (stop_loss s)
                = Inl ZeroDivisionError
         else (\<exists>d. calculate_position_info cfg s sd = Inr d
                 \<and> shares d = py_int (account_value * max_position_size cfg / entry_price s))
            \<and> (\<exists>d. calculate_position_sizing cfg sd (entry_price s) (stop_loss s) = Inr d
                 \<and> shares d = py_int (account_value * max_position_size cfg / entry_price s))))"
proof (intro conjI impI)
  assume h: "entry_price s = 100 \<and> stop_loss s = 97"
  show "py_int (account_value * max_risk_per_trade trading_config
                  / \<bar>entry_price s - stop_loss s\<bar>) = 666"
    using h by (simp add: account_value_def trading_config_def py_int_def)
  show "(666::real) * entry_price s = 66600"
    using h by simp
  show "account_value * max_position_size trading_config = 10000"
    by (simp add: account_value_def trading_config_def)
  show "py_int (10000 / 100) = 100"
    by (simp add: py_int_def)
  show "\<exists>d. calculate_position_info trading_config s sd = Inr d
            \<and> shares d = 100 \<and> position_value d = 10000"
    using h
    by (simp add: calculate_position_info_def account_value_def trading_config_def
        py_int_def py_div_def Let_def)
  show "\<exists>d. calculate_position_sizing trading_config sd (entry_price s) (stop_loss s) = Inr d
            \<and> shares d = 100 \<and> position_value d = 10000"
    using h
    by (simp add: calculate_position_sizing_def account_value_def trading_config_def
        py_int_def py_div_def Let_def)
next
  assume h: "entry_price s \<noteq> stop_loss s
        \<and> of_int (py_int (account_value * max_risk_per_trade cfg
                             / \<bar>entry_price s - stop_loss s\<bar>)) * entry_price s
            > account_value * max_position_size cfg"
  show "if entry_price s = 0
         then calculate_position_info cfg s sd = Inl ZeroDivisionError
            \<and> calculate_position_sizing cfg sd (entry_price s) (stop_loss s)
                = Inl ZeroDivisionError
         else (\<exists>d. calculate_position_info cfg s sd = Inr d
                 \<and> shares d = py_int (account_value * max_position_size cfg / entry_price s))
            \<and> (\<exists>d. calculate_position_sizing cfg sd (entry_price s) (stop_loss s) = Inr d
                 \<and> shares d = py_int (account_value * max_position_size cfg / entry_price s))"
  proof (cases "entry_price s = 0")
    case True
    with h have "account_value * max_position_size cfg < 0"
      by simp
    with True h show ?thesis
      by (simp add: calculate_position_info_def calculate_position_sizing_def py_div_def Let_def)
  next
    case False
    with h show ?thesis
      by (simp add: calculate_position_info_def calculate_position_sizing_def py_div_def Let_def)
  qed
qed

theorem position_size_cap_wins_scenario_b:
  "entry_price signal_scenario_b = 100 \<and> stop_loss signal_scenario_b = 97
   \<and> entry_price signal_scenario_b \<noteq> stop_loss signal_scenario_b
   \<and> of_int (py_int (account_value * max_risk_per_trade trading_config
                        / \<bar>entry_price signal_scenario_b - stop_loss signal_scenario_b\<bar>))
         * entry_price signal_scenario_b
       > account_value * max_position_size trading_config
   \<and> (\<exists>d. calculate_position_info trading_config signal_scenario_b snapshot_gap_up = Inr d
          \<and> shares d = 100 \<and> position_value d = 10000)"
proof -
  have h: "entry_price signal_scenario_b = 100 \<and> stop_loss signal_scenario_b = 97"
    by (simp add: signal_scenario_b_def)
  have g: "entry_price signal_scenario_b \<noteq> stop_loss signal_scenario_b
     \<and> of_int (py_int (account_value * max_risk_per_trade trading_config
                        / \<bar>entry_price signal_scenario_b - stop_loss signal_scenario_b\<bar>))
         * entry_price signal_scenario_b
       > account_value * max_position_size trading_config"
    by (simp add: signal_scenario_b_def account_value_def trading_config_def py_int_def)
  from position_size_cap_wins [of signal_scenario_b snapshot_gap_up trading_config] h g
  show ?thesis by blast
qed

text \<open>
  Claim C10. The sizing of the strategy base class and the sizing of the orchestrator
  agree: on every configuration and every signal both raise the same error or both return,
  with the same \<open>shares\<close>, \<open>position_value\<close> and \<open>risk_amount\<close>; and when the stop loss
  equals the entry price both return zero shares with these fields zero.
\<close>

theorem position_sizing_copies_agree:
  "map_sum id (\<lambda>d. (shares d, position_value d, risk_amount d))
       (calculate_position_sizing cfg sd (entry_price s) (stop_loss s))
     = map_sum id (\<lambda>d. (shares d, position_value d, risk_amount d))
         (calculate_position_info cfg s sd)
   \<and> calculate_position_sizing cfg sd e e
       = Inr \<lparr> shares = 0, position_value = 0, risk_amount = 0,
               position_percent = None, potential_profit = None, potential_loss = None \<rparr>
   \<and> calculate_position_info cfg (s\<lparr>stop_loss := entry_price s\<rparr>) sd
       = Inr \<lparr> shares = 0, position_value = 0, risk_amount = 0,
               position_percent = Some 0, potential_profit = None, potential_loss = None \<rparr>"
  by (simp add: calculate_position_info_def calculate_position_sizing_def py_div_def Let_def)

subsection \<open>The three evaluators\<close>

text \<open>
  What a returned signal satisfies, evaluator by evaluator: the price it was built from is
  not zero, since otherwise the division computing the ratio raises and the handler
  returns \<^verbatim>\<open>None\<close>.
\<close>

lemma ratio_abs:
  fixes a b :: real
  assumes "0 < a / b"
  shows "a / b = \<bar>a\<bar> / \<bar>b\<bar>"
proof -
  have "\<bar>a / b\<bar> = a / b"
    using assms by (simp only: abs_of_pos)
  then show ?thesis
    by (simp only: abs_divide)
qed

lemma gap_momentum_Some:
  assumes "analyze GapMomentumStrategy cfg sd = Some s"
  shows "entry_price s \<noteq> 0 \<and> entry_price s \<noteq> stop_loss s \<and> 0 < risk_reward_ratio s
         \<and> risk_reward_ratio s = (take_profit s - entry_price s) / (entry_price s - stop_loss s)"
  using assms
  by (auto simp: try_except_def gap_momentum_body_def py_div_def Let_def
      split: if_splits sum.splits)

lemma volume_breakout_Some:
  assumes "analyze VolumeBreakoutStrategy cfg sd = Some s"
  shows "entry_price s \<noteq> 0 \<and> entry_price s \<noteq> stop_loss s \<and> 0 < risk_reward_ratio s
         \<and> risk_reward_ratio s
             = \<bar>take_profit s - entry_price s\<bar> / \<bar>entry_price s - stop_loss s\<bar>"
  using assms
  by (auto simp: try_except_def volume_breakout_body_def volume_breakout_signal_def
      py_div_def Let_def split: if_splits sum.splits)

lemma premarket_momentum_Some:
  assumes "analyze PremarketMomentumStrategy cfg sd = Some s"
  shows "entry_price s \<noteq> 0 \<and> entry_price s \<noteq> stop_loss s \<and> 0 < risk_reward_ratio s
         \<and> risk_reward_ratio s = (take_profit s - entry_price s) / (entry_price s - stop_loss s)"
  using assms
  by (auto simp: try_except_def premarket_momentum_body_def premarket_momentum_signal_def
      py_div_def Let_def split: if_splits sum.splits option.splits)

lemma analyze_Some:
  assumes "analyze st cfg sd = Some s"
  shows "entry_price s \<noteq> 0 \<and> entry_price s \<noteq> stop_loss s \<and> 0 < risk_reward_ratio s
         \<and> risk_reward_ratio s
             = \<bar>take_profit s - entry_price s\<bar> / \<bar>entry_price s - stop_loss s\<bar>"
proof (cases st)
  case GapMomentumStrategy
  with assms gap_momentum_Some [of cfg sd s] ratio_abs show ?thesis
    by metis
next
  case VolumeBreakoutStrategy
  with assms volume_breakout_Some [of cfg sd s] show ?thesis
    by blast
next
  case PremarketMomentumStrategy
  with assms premarket_momentum_Some [of cfg sd s] ratio_abs show ?thesis
    by metis
qed

text \<open>
  Claim C6. Whenever one of the three evaluators returns a signal, on any snapshot and any
  configuration, the signal's reward/risk ratio is strictly positive, it is the quotient of
  the distance to the target by the distance to the stop, and the stop differs from the
  entry: with a zero price risk the division raises and the evaluator returns nothing.
  (In the model every real is finite.)
\<close>

theorem reward_risk_ratio_positive:
  assumes "analyze st cfg sd = Some s"
  shows "0 < risk_reward_ratio s \<and> entry_price s \<noteq> stop_loss s
         \<and> risk_reward_ratio s
             = \<bar>take_profit s - entry_price s\<bar> / \<bar>entry_price s - stop_loss s\<bar>"
  using analyze_Some [OF assms] by simp

theorem reward_risk_ratio_positive_gap_down:
  "\<exists>s. analyze VolumeBreakoutStrategy trading_config snapshot_gap_down = Some s
       \<and> 0 < risk_reward_ratio s \<and> entry_price s \<noteq> stop_loss s"
proof -
  have h: "analyze VolumeBreakoutStrategy trading_config snapshot_gap_down =
     Some \<lparr> signal_symbol = ''TSLA'', strategy_name = ''Volume Breakout'', signal_type = ''SELL'',
            confidence = 4 / 5, entry_price = 100, stop_loss = 104, take_profit = 92,
            risk_reward_ratio = 2 \<rparr>"
    by (simp add: try_except_def volume_breakout_body_def volume_breakout_signal_def py_div_def
        Let_def trading_config_def snapshot_gap_down_def)
  from reward_risk_ratio_positive [OF h] h show ?thesis
    by blast
qed

text \<open>
  Claim C7. On every snapshot whose previous close is zero or negative the Premarket
  Momentum evaluator returns no signal, and it does so by the guard, not through its
  exception handler: the body of the evaluator returns \<open>None\<close> without raising, so the
  division by the previous close is not executed.
\<close>

theorem premarket_previous_close_guard:
  assumes "previous_close sd \<le> 0"
  shows "premarket_momentum_body cfg sd = Inr None
         \<and> analyze PremarketMomentumStrategy cfg sd = None"
  using assms by (simp add: premarket_momentum_body_def try_except_def Let_def)

theorem premarket_previous_close_guard_zero:
  "previous_close snapshot_zero_close = 0
   \<and> premarket_momentum_body trading_config snapshot_zero_close = Inr None
   \<and> analyze PremarketMomentumStrategy trading_config snapshot_zero_close = None"
proof -
  have h: "previous_close snapshot_zero_close \<le> 0"
    by (simp add: snapshot_zero_close_def)
  have p: "previous_close snapshot_zero_close = 0"
    by (simp add: snapshot_zero_close_def)
  from p premarket_previous_close_guard [OF h, of trading_config] show ?thesis
    by blast
qed

text \<open>
  Claim C8, as stated, fails: with no volume baseline the volume ratio is 1.0, and under
  the default multiplier 2.0 the test \<open>volume_ratio \<ge> volume_threshold_multiplier\<close>
  rejects the snapshot although its gap of 5 percent reaches the threshold.
\<close>

theorem gap_momentum_no_baseline_rejected:
  "avg_volume snapshot_no_baseline = 0
   \<and> \<bar>gap_percent snapshot_no_baseline\<bar> \<ge> gap_threshold_percent trading_config
   \<and> analyze GapMomentumStrategy trading_config snapshot_no_baseline = None"
  by (simp add: try_except_def gap_momentum_body_def Let_def trading_config_def
      snapshot_no_baseline_def)

text \<open>
  Claim C8, amended. With an average volume of zero the volume ratio used in the trigger
  and in the confidence formula is 1.0; the volume test is still applied to it. So a
  snapshot with average volume zero, a gap that reaches the threshold and a price other
  than zero yields a signal exactly when \<open>volume_threshold_multiplier \<le> 1.0\<close>, and the
  signal's confidence is then computed with the ratio 1.0.
\<close>

theorem gap_momentum_no_baseline:
  assumes "avg_volume sd = 0" and "\<bar>gap_percent sd\<bar> \<ge> gap_threshold_percent cfg"
    and "current_price sd \<noteq> 0"
  shows "analyze GapMomentumStrategy cfg sd =
     (if volume_threshold_multiplier cfg \<le> 1 then
        Some \<lparr> signal_symbol = symbol sd, strategy_name = ''Gap Momentum'', signal_type = ''BUY'',
               confidence =
                 (if gap_percent sd \<ge> gap_threshold_percent cfg
                  then min 0.9 ((gap_percent sd / 10) * (1 / 3))
                  else min 0.8 ((\<bar>gap_percent sd\<bar> / 15) * (1 / 3))),
               entry_price = current_price sd,
               stop_loss =
                 (if gap_percent sd \<ge> gap_threshold_percent cfg
                  then current_price sd * 0.97 else current_price sd * 0.95),
               take_profit =
                 (if gap_percent sd \<ge> gap_threshold_percent cfg
                  then current_price sd * 1.06 else current_price sd * 1.08),
               risk_reward_ratio =
                 (if gap_percent sd \<ge> gap_threshold_percent cfg then 2 else 8 / 5) \<rparr>
      else None)"
proof (cases "gap_percent sd \<ge> gap_threshold_percent cfg")
  case True
  with assms show ?thesis
    by (simp add: try_except_def gap_momentum_body_def py_div_def Let_def)
next
  case False
  with assms have "gap_percent sd \<le> - gap_threshold_percent cfg"
    by linarith
  with False assms show ?thesis
    by (simp add: try_except_def gap_momentum_body_def py_div_def Let_def)
qed

theorem gap_momentum_no_baseline_multiplier_one:
  "avg_volume snapshot_no_baseline = 0
   \<and> \<bar>gap_percent snapshot_no_baseline\<bar>
       \<ge> gap_threshold_percent (trading_config\<lparr>volume_threshold_multiplier := 1\<rparr>)
   \<and> current_price snapshot_no_baseline \<noteq> 0
   \<and> analyze GapMomentumStrategy (trading_config\<lparr>volume_threshold_multiplier := 1\<rparr>)
        snapshot_no_baseline
       = Some \<lparr> signal_symbol = ''NVDA'', strategy_name = ''Gap Momentum'', signal_type = ''BUY'',
                confidence = 1 / 6, entry_price = 105, stop_loss = 105 * 0.97,
                take_profit = 105 * 1.06, risk_reward_ratio = 2 \<rparr>"
proof -
  let ?cfg = "trading_config\<lparr>volume_threshold_multiplier := 1\<rparr>"
  have h: "avg_volume snapshot_no_baseline = 0"
    "\<bar>gap_percent snapshot_no_baseline\<bar> \<ge> gap_threshold_percent ?cfg"
    "current_price snapshot_no_baseline \<noteq> 0"
    by (simp_all add: snapshot_no_baseline_def trading_config_def)
  from gap_momentum_no_baseline [OF h] h show ?thesis
    by (simp add: snapshot_no_baseline_def trading_config_def)
qed

text \<open>
  Claim C9. Scenario A: on a snapshot with a gap of 5.0 percent, a positive average volume
  and a volume ratio of 2.5, under a gap threshold of 3.0 and a volume multiplier of 2.0,
  the Gap Momentum evaluator returns a BUY signal with the stop at 0.97 and the target at
  1.06 times the current price and the confidence \<open>min(0.9, (5.0/10) * (2.5/3))\<close>, which is
  5/12, 0.417 to three decimals. The current price is not zero, as in every snapshot of the
  data model (a positive price); at a price of zero the ratio's division raises.
\<close>

theorem gap_momentum_scenario_a:
  assumes "gap_percent sd = 5.0" and "avg_volume sd > 0"
    and "of_int (regular_volume sd + premarket_volume sd) / avg_volume sd = 2.5"
    and "gap_threshold_percent cfg = 3.0" and "volume_threshold_multiplier cfg = 2.0"
    and "current_price sd \<noteq> 0"
  shows "analyze GapMomentumStrategy cfg sd =
           Some \<lparr> signal_symbol = symbol sd, strategy_name = ''Gap Momentum'',
                  signal_type = ''BUY'',
                  confidence = min 0.9 ((5.0 / 10) * (2.5 / 3)),
                  entry_price = current_price sd,
                  stop_loss = current_price sd * 0.97,
                  take_profit = current_price sd * 1.06,
                  risk_reward_ratio = 2 \<rparr>
         \<and> min 0.9 ((5.0 / 10) * (2.5 / 3)) = (5 / 12 :: real)
         \<and> \<bar>(5 / 12 :: real) - 0.417\<bar> < 0.0005
         \<and> py_round (5 / 12) 3 = 0.417"
proof -
  have vr: "real_of_int (regular_volume sd + premarket_volume sd) / avg_volume sd = 5 / 2"
    using assms(3) by simp
  have "gap_momentum_body cfg sd =
           Inr (Some \<lparr> signal_symbol = symbol sd, strategy_name = ''Gap Momentum'',
                  signal_type = ''BUY'',
                  confidence = min 0.9 ((5.0 / 10) * (2.5 / 3)),
                  entry_price = current_price sd,
                  stop_loss = current_price sd * 0.97,
                  take_profit = current_price sd * 1.06,
                  risk_reward_ratio = 2 \<rparr>)"
    unfolding gap_momentum_body_def Let_def vr
    using assms(1,2,4,5,6) by (simp add: py_div_def)
  moreover have "py_round (5 / 12) 3 = 0.417"
    by (simp add: py_round_def Let_def)
  ultimately show ?thesis
    by (simp add: try_except_def)
qed

theorem gap_momentum_scenario_a_snapshot:
  "gap_percent snapshot_gap_up = 5 \<and> 0 < avg_volume snapshot_gap_up
   \<and> current_price snapshot_gap_up \<noteq> 0
   \<and> analyze GapMomentumStrategy trading_config snapshot_gap_up =
        Some \<lparr> signal_symbol = ''AAPL'', strategy_name = ''Gap Momentum'', signal_type = ''BUY'',
               confidence = 5 / 12, entry_price = 105, stop_loss = 105 * 0.97,
               take_profit = 105 * 1.06, risk_reward_ratio = 2 \<rparr>"
proof -
  have h: "gap_percent snapshot_gap_up = 5.0" "avg_volume snapshot_gap_up > 0"
    "of_int (regular_volume snapshot_gap_up + premarket_volume snapshot_gap_up)
       / avg_volume snapshot_gap_up = 2.5"
    "gap_threshold_percent trading_config = 3.0"
    "volume_threshold_multiplier trading_config = 2.0"
    "current_price snapshot_gap_up \<noteq> 0"
    by (simp_all add: snapshot_gap_up_def trading_config_def)
  from gap_momentum_scenario_a [OF h] h show ?thesis
    by (simp add: snapshot_gap_up_def)
qed

subsection \<open>Selection of one signal per snapshot\<close>

lemma get_best_signal_first:
  assumes "sigs \<noteq> []"
  shows "\<exists>pre best post. sigs = pre @ best # post
           \<and> get_best_signal cfg sigs = Inr (Some best)
           \<and> (\<forall>t\<in>set pre. weighted_score cfg t < weighted_score cfg best)
           \<and> (\<forall>t\<in>set post. weighted_score cfg t \<le> weighted_score cfg best)"
proof -
  let ?f = "\<lambda>s. (weighted_score cfg s, s)"
  have "map ?f sigs \<noteq> []"
    using assms by simp
  from py_sort_reverse_first [OF this, of fst]
  obtain pre b post rest where
    d: "map ?f sigs = pre @ b # post" and
    s: "py_sort_reverse fst (map ?f sigs) = b # rest" and
    p: "\<forall>t\<in>set pre. fst t < fst b" and
    q: "\<forall>t\<in>set post. fst t \<le> fst b"
    by blast
  from d obtain pre' best post' where
    d': "sigs = pre' @ best # post'" "pre = map ?f pre'" "b = ?f best" "post = map ?f post'"
    by (auto simp: map_eq_append_conv map_eq_Cons_conv)
  have "get_best_signal cfg sigs = Inr (Some best)"
    using assms s d' by (simp add: get_best_signal_def)
  moreover have "\<forall>t\<in>set pre'. weighted_score cfg t < weighted_score cfg best"
    using p d' by simp
  moreover have "\<forall>t\<in>set post'. weighted_score cfg t \<le> weighted_score cfg best"
    using q d' by simp
  ultimately show ?thesis
    using d' by blast
qed

lemma get_best_signal_total:
  "get_best_signal cfg sigs = Inr None \<and> sigs = []
   \<or> (\<exists>best. get_best_signal cfg sigs = Inr (Some best) \<and> best \<in> set sigs)"
proof (cases "sigs = []")
  case True
  then show ?thesis
    by (simp add: get_best_signal_def)
next
  case False
  from get_best_signal_first [OF False, of cfg] show ?thesis
    by auto
qed

text \<open>
  The loop of \<open>analyze_stock\<close> appends, strategy by strategy in the order of the list,
  the signal of the strategy if it returns one that passes the two thresholds.
\<close>

lemma analyze_stock_loop_concat:
  "analyze_stock_loop cfg sd sts acc =
     acc @ concat (map (\<lambda>st. case analyze st cfg sd of
                               None \<Rightarrow> []
                             | Some s \<Rightarrow>
                                 if confidence s > 0.3
                                    \<and> risk_reward_ratio s \<ge> min_risk_reward_ratio cfg
                                 then [s] else []) sts)"
  by (induction sts arbitrary: acc) (auto split: option.splits)

lemma analyze_stock_mem:
  assumes "s \<in> set (analyze_stock cfg sd)"
  shows "\<exists>st. analyze st cfg sd = Some s"
  using assms
  by (auto simp: analyze_stock_def analyze_stock_loop_concat split: option.splits if_splits)

lemma concat_single_split:
  assumes "\<forall>st\<in>set sts. length (f st) \<le> 1" and "concat (map f sts) = pre @ b # post"
  shows "\<exists>P st Q. sts = P @ st # Q \<and> f st = [b]
           \<and> concat (map f P) = pre \<and> concat (map f Q) = post"
  using assms
proof (induction sts arbitrary: pre)
  case Nil
  then show ?case
    by simp
next
  case (Cons st sts)
  note IH = Cons.IH and prems = Cons.prems
  show ?case
  proof (cases "f st")
    case Nil
    with prems have "concat (map f sts) = pre @ b # post"
      by simp
    with IH prems(1) obtain P st' Q where
      "sts = P @ st' # Q" "f st' = [b]" "concat (map f P) = pre" "concat (map f Q) = post"
      by (metis list.set_intros(2))
    with Nil have "st # sts = (st # P) @ st' # Q \<and> f st' = [b]
        \<and> concat (map f (st # P)) = pre \<and> concat (map f Q) = post"
      by simp
    then show ?thesis
      by blast
  next
    case (Cons x xs)
    with prems(1) have fx: "f st = [x]"
      by simp
    show ?thesis
    proof (cases pre)
      case Nil
      with fx prems(2) have "x = b" "concat (map f sts) = post"
        by simp_all
      with fx Nil have "st # sts = [] @ st # sts \<and> f st = [b]
          \<and> concat (map f []) = pre \<and> concat (map f sts) = post"
        by simp
      then show ?thesis
        by blast
    next
      case (Cons y pre')
      with fx prems(2) have xy: "x = y" and c: "concat (map f sts) = pre' @ b # post"
        by simp_all
      from IH [OF _ c] prems(1) obtain P st' Q where
        "sts = P @ st' # Q" "f st' = [b]" "concat (map f P) = pre'" "concat (map f Q) = post"
        by auto
      with fx xy Cons have "st # sts = (st # P) @ st' # Q \<and> f st' = [b]
          \<and> concat (map f (st # P)) = pre \<and> concat (map f Q) = post"
        by simp
      then show ?thesis
        by blast
    qed
  qed
qed

text \<open>
  The selection for one snapshot comes from a strategy \<open>st\<close> of the registry such that
  every surviving signal of a strategy registered before \<open>st\<close> has a strictly smaller
  weighted score, and every surviving signal of a later one has at most the same.
\<close>

lemma best_of_stock:
  assumes "analyze_stock cfg sd \<noteq> []"
  shows "\<exists>P st Q best. strategies = P @ st # Q
           \<and> analyze st cfg sd = Some best
           \<and> get_best_signal cfg (analyze_stock cfg sd) = Inr (Some best)
           \<and> (\<forall>t\<in>set (analyze_stock_loop cfg sd P []).
                 weighted_score cfg t < weighted_score cfg best)
           \<and> (\<forall>t\<in>set (analyze_stock_loop cfg sd Q []).
                 weighted_score cfg t \<le> weighted_score cfg best)"
proof -
  let ?f = "\<lambda>st. case analyze st cfg sd of
                    None \<Rightarrow> []
                  | Some s \<Rightarrow>
                      if confidence s > 0.3 \<and> risk_reward_ratio s \<ge> min_risk_reward_ratio cfg
                      then [s] else []"
  from get_best_signal_first [OF assms, of cfg] obtain pre best post where
    d: "analyze_stock cfg sd = pre @ best # post" and
    g: "get_best_signal cfg (analyze_stock cfg sd) = Inr (Some best)" and
    p: "\<forall>t\<in>set pre. weighted_score cfg t < weighted_score cfg best" and
    q: "\<forall>t\<in>set post. weighted_score cfg t \<le> weighted_score cfg best"
    by blast
  have c: "concat (map ?f strategies) = pre @ best # post"
    using d by (simp add: analyze_stock_def analyze_stock_loop_concat)
  have l: "\<forall>st\<in>set strategies. length (?f st) \<le> 1"
    by (auto split: option.splits)
  from concat_single_split [of strategies ?f, OF l c] obtain P st Q where
    s: "strategies = P @ st # Q" "?f st = [best]"
       "concat (map ?f P) = pre" "concat (map ?f Q) = post"
    by blast
  have "analyze st cfg sd = Some best"
    using s(2) by (auto split: option.splits if_splits)
  moreover have "analyze_stock_loop cfg sd P [] = pre" "analyze_stock_loop cfg sd Q [] = post"
    using s(3,4) by (simp_all add: analyze_stock_loop_concat)
  ultimately show ?thesis
    using s(1) g p q by blast
qed

text \<open>
  Claim C4. On an empty list the selector returns none. On a non-empty list it returns a
  candidate of greatest weighted score, namely the first such candidate of the list: every
  candidate before it has a strictly smaller score. The list the orchestrator passes is
  built in registration order (Gap Momentum, Volume Breakout, Premarket Momentum), so
  among the strategies whose signals tie on the greatest score the one registered first
  is selected. The weighted score is the confidence times the weight stored under the
  lower-cased name with spaces replaced by underscores, and times 0.5 when the mapping has
  no such name.
\<close>

theorem best_signal_selection:
  "get_best_signal cfg [] = Inr None
   \<and> (sigs \<noteq> [] \<longrightarrow>
        (\<exists>pre best post. sigs = pre @ best # post
           \<and> get_best_signal cfg sigs = Inr (Some best)
           \<and> (\<forall>t\<in>set pre. weighted_score cfg t < weighted_score cfg best)
           \<and> (\<forall>t\<in>set post. weighted_score cfg t \<le> weighted_score cfg best)))
   \<and> (analyze_stock cfg sd \<noteq> [] \<longrightarrow>
        (\<exists>P st Q best. strategies = P @ st # Q
           \<and> analyze st cfg sd = Some best
           \<and> get_best_signal cfg (analyze_stock cfg sd) = Inr (Some best)
           \<and> (\<forall>t\<in>set (analyze_stock_loop cfg sd P []).
                 weighted_score cfg t < weighted_score cfg best)
           \<and> (\<forall>t\<in>set (analyze_stock_loop cfg sd Q []).
                 weighted_score cfg t \<le> weighted_score cfg best)))
   \<and> map name strategies = [''Gap Momentum'', ''Volume Breakout'', ''Premarket Momentum'']
   \<and> map (\<lambda>st. normalize_name (name st)) strategies
       = [''gap_momentum'', ''volume_breakout'', ''premarket_momentum'']
   \<and> weighted_score cfg s
       = confidence s * (case strategy_weights cfg (normalize_name (strategy_name s)) of
                           None \<Rightarrow> 0.5 | Some w \<Rightarrow> w)
   \<and> weighted_score (cfg\<lparr>strategy_weights := Map.empty\<rparr>) s = confidence s * 0.5"
proof -
  have "get_best_signal cfg [] = Inr None"
    by (simp add: get_best_signal_def)
  moreover have "map (\<lambda>st. normalize_name (name st)) strategies
       = [''gap_momentum'', ''volume_breakout'', ''premarket_momentum'']"
    by (simp add: strategies_def normalize_name_def lower_char_def)
  moreover have "map name strategies = [''Gap Momentum'', ''Volume Breakout'', ''Premarket Momentum'']"
    by (simp add: strategies_def)
  moreover have "weighted_score (cfg\<lparr>strategy_weights := Map.empty\<rparr>) s = confidence s * 0.5"
    by (simp add: weighted_score_def)
  ultimately show ?thesis
    using get_best_signal_first [of sigs cfg] best_of_stock [of cfg sd]
    by (simp add: weighted_score_def)
qed

theorem best_signal_selection_tie:
  "analyze_stock trading_config snapshot_tie \<noteq> []
   \<and> (\<exists>v p. analyze_stock trading_config snapshot_tie = [v, p]
         \<and> strategy_name v = ''Volume Breakout'' \<and> strategy_name p = ''Premarket Momentum''
         \<and> weighted_score trading_config v = weighted_score trading_config p
         \<and> get_best_signal trading_config (analyze_stock trading_config snapshot_tie)
             = Inr (Some v))"
proof -
  let ?v = "\<lparr> signal_symbol = ''MSFT'', strategy_name = ''Volume Breakout'', signal_type = ''BUY'',
              confidence = 4 / 5, entry_price = 102, stop_loss = 2448 / 25,
              take_profit = 2754 / 25, risk_reward_ratio = 2 \<rparr>"
  let ?p = "\<lparr> signal_symbol = ''MSFT'', strategy_name = ''Premarket Momentum'',
              signal_type = ''BUY'', confidence = 4 / 5, entry_price = 102,
              stop_loss = 4947 / 50, take_profit = 2703 / 25, risk_reward_ratio = 2 \<rparr>"
  have a: "analyze_stock trading_config snapshot_tie = [?v, ?p]"
    by (simp add: analyze_stock_def strategies_def try_except_def gap_momentum_body_def
        volume_breakout_body_def volume_breakout_signal_def premarket_momentum_body_def
        premarket_momentum_signal_def py_div_def Let_def trading_config_def snapshot_tie_def)
  have w: "weighted_score trading_config ?v = 6 / 25" "weighted_score trading_config ?p = 6 / 25"
    by (simp_all add: weighted_score_def normalize_name_def lower_char_def trading_config_def)
  have ne: "analyze_stock trading_config snapshot_tie \<noteq> []"
    using a by simp
  from best_signal_selection [of trading_config "analyze_stock trading_config snapshot_tie"
      snapshot_tie ?v] ne
  obtain pre best post where
    d: "analyze_stock trading_config snapshot_tie = pre @ best # post"
       "get_best_signal trading_config (analyze_stock trading_config snapshot_tie)
          = Inr (Some best)"
       "\<forall>t\<in>set pre. weighted_score trading_config t < weighted_score trading_config best"
    by blast
  have "pre = []"
  proof (cases pre)
    case Nil
    then show ?thesis by simp
  next
    case (Cons x xs)
    with d(1) a have x: "x = ?v" "best \<in> {?v, ?p}"
      by (auto simp: Cons_eq_append_conv append_eq_Cons_conv)
    with d(3) Cons w show ?thesis by auto
  qed
  with d(1) a have "best = ?v" by simp
  with d(2) a w ne show ?thesis by simp
qed

subsection \<open>Ranking across snapshots\<close>

text \<open>
  Claim C3. The final list is the first ten elements of the reverse-sorted list of the
  selections that pass the final filter (confidence at least 0.4, reward/risk ratio at
  least the configured minimum). The sorted list has exactly the elements of the filtered
  one, is non-increasing in \<open>confidence * risk_reward_ratio\<close>, and keeps the elements of
  any one key value \<open>c\<close> in the order they had in the input, which is the order of the
  universe. The final list is itself non-increasing and has at most ten elements.
\<close>

theorem top_signals_ranked:
  "top_signals cfg all_signals
     = take 10 (py_sort_reverse ranking_key (filter (is_valid cfg) all_signals))
   \<and> is_valid cfg x
       = (confidence (fst x) \<ge> 0.4 \<and> risk_reward_ratio (fst x) \<ge> min_risk_reward_ratio cfg)
   \<and> mset (py_sort_reverse ranking_key (filter (is_valid cfg) all_signals))
       = mset (filter (is_valid cfg) all_signals)
   \<and> sorted_wrt (\<lambda>a b. ranking_key a \<ge> ranking_key b)
       (py_sort_reverse ranking_key (filter (is_valid cfg) all_signals))
   \<and> filter (\<lambda>x. ranking_key x = c)
         (py_sort_reverse ranking_key (filter (is_valid cfg) all_signals))
       = filter (\<lambda>x. ranking_key x = c) (filter (is_valid cfg) all_signals)
   \<and> sorted_wrt (\<lambda>a b. confidence (fst a) * risk_reward_ratio (fst a)
                          \<ge> confidence (fst b) * risk_reward_ratio (fst b))
       (top_signals cfg all_signals)
   \<and> length (top_signals cfg all_signals) = min 10 (length (filter (is_valid cfg) all_signals))
   \<and> length (top_signals cfg all_signals) \<le> 10"
proof -
  have "sorted_wrt (\<lambda>a b. ranking_key a \<ge> ranking_key b) (top_signals cfg all_signals)"
    unfolding top_signals_def Let_def
    by (rule sorted_wrt_take) (rule sorted_py_sort_reverse)
  then have "sorted_wrt (\<lambda>a b. confidence (fst a) * risk_reward_ratio (fst a)
                          \<ge> confidence (fst b) * risk_reward_ratio (fst b))
       (top_signals cfg all_signals)"
    by (simp add: ranking_key_def)
  moreover have "length (top_signals cfg all_signals)
      = min 10 (length (filter (is_valid cfg) all_signals))"
    by (simp add: top_signals_def length_py_sort_reverse)
  ultimately show ?thesis
    by (simp add: top_signals_def is_valid_def mset_py_sort_reverse sorted_py_sort_reverse
        stable_py_sort_reverse)
qed

text \<open>Scenario E: two selections with the same key are reported in their input order.\<close>

theorem top_signals_ranked_tie:
  "ranking_key selection_gap_up = ranking_key selection_gap_down
   \<and> top_signals trading_config [selection_gap_up, selection_gap_down]
       = [selection_gap_up, selection_gap_down]
   \<and> top_signals trading_config [selection_gap_down, selection_gap_up]
       = [selection_gap_down, selection_gap_up]"
proof -
  have v: "is_valid trading_config selection_gap_up" "is_valid trading_config selection_gap_down"
    and k: "ranking_key selection_gap_up = 8 / 5" "ranking_key selection_gap_down = 8 / 5"
    by (simp_all add: is_valid_def ranking_key_def selection_gap_up_def selection_gap_down_def
        trading_config_def)
  have "top_signals trading_config [selection_gap_up, selection_gap_down]
      = take 10 (py_sort_reverse ranking_key
                   (filter (is_valid trading_config) [selection_gap_up, selection_gap_down]))"
    using top_signals_ranked
      [of trading_config "[selection_gap_up, selection_gap_down]" selection_gap_up "8 / 5"]
    by (rule conjunct1)
  moreover have "top_signals trading_config [selection_gap_down, selection_gap_up]
      = take 10 (py_sort_reverse ranking_key
                   (filter (is_valid trading_config) [selection_gap_down, selection_gap_up]))"
    using top_signals_ranked
      [of trading_config "[selection_gap_down, selection_gap_up]" selection_gap_up "8 / 5"]
    by (rule conjunct1)
  ultimately show ?thesis
    using v k by (simp add: py_sort_reverse_def)
qed

subsection \<open>The run as a whole\<close>

text \<open>
  The loop over the snapshots never raises: a selection is a signal some evaluator
  returned, so its entry price is neither zero nor equal to its stop, and its sizing has
  every key.
\<close>

lemma calculate_position_info_total:
  assumes "entry_price s \<noteq> 0" and "entry_price s \<noteq> stop_loss s"
  shows "\<exists>d. calculate_position_info cfg s sd = Inr d
            \<and> potential_profit d \<noteq> None \<and> potential_loss d \<noteq> None
            \<and> position_percent d \<noteq> None"
  using assms by (simp add: calculate_position_info_def py_div_def Let_def)

lemma collect_signals_total:
  "\<exists>all_signals. collect_signals cfg stock_data acc = Inr all_signals"
proof (induction stock_data arbitrary: acc)
  case Nil
  then show ?case
    by simp
next
  case (Cons x rest)
  obtain key data where x: "x = (key, data)"
    by (cases x)
  show ?case
  proof (cases "analyze_stock cfg data = []")
    case True
    with x Cons.IH show ?thesis
      by simp
  next
    case False
    with get_best_signal_total [of cfg "analyze_stock cfg data"] obtain best where
      b: "get_best_signal cfg (analyze_stock cfg data) = Inr (Some best)"
         "best \<in> set (analyze_stock cfg data)"
      by blast
    from analyze_stock_mem [OF b(2)] analyze_Some have
      "entry_price best \<noteq> 0" "entry_price best \<noteq> stop_loss best"
      by blast+
    from calculate_position_info_total [OF this, of cfg data] obtain d where
      "calculate_position_info cfg best data = Inr d"
      by blast
    with x False b(1) Cons.IH show ?thesis
      by simp
  qed
qed

lemma py_round_0: "py_round 0 n = 0"
  by (simp add: py_round_def)

lemma create_result_empty:
  "create_result cfg [] n =
     Inr \<lparr> summary =
             \<lparr> total_stocks_analyzed = n, signals_generated = 0,
               avg_confidence = Some 0, avg_risk_reward = Some 0,
               buy_signals = Some 0, sell_signals = Some 0,
               total_risk_amount = Some 0, total_position_value = Some 0,
               error = None \<rparr>,
           signals = [], config = config_block cfg \<rparr>"
  by (simp add: create_result_def create_summary_def py_round_0)

lemma collect_quiet:
  "collect_signals trading_config [(''KO'', snapshot_quiet)] [] = Inr []"
  by (simp add: analyze_stock_def strategies_def try_except_def gap_momentum_body_def
      volume_breakout_body_def premarket_momentum_body_def Let_def trading_config_def
      snapshot_quiet_def)

lemma collect_gap_down:
  "collect_signals trading_config [(''TSLA'', snapshot_gap_down)] [] = Inr [selection_gap_down]"
  by (simp add: analyze_stock_def strategies_def try_except_def gap_momentum_body_def
      volume_breakout_body_def volume_breakout_signal_def premarket_momentum_body_def
      premarket_momentum_signal_def py_div_def Let_def trading_config_def
      snapshot_gap_down_def selection_gap_down_def
      get_best_signal_def py_sort_reverse_def weighted_score_def normalize_name_def lower_char_def
      calculate_position_info_def account_value_def py_int_def)

text \<open>
  Claim C5, as stated, fails on a universe that is not empty but yields no selection: the
  result counts the one snapshot analyzed and its summary has no reason string.
\<close>

theorem no_selection_result_has_no_reason:
  "collect_signals trading_config [(''KO'', snapshot_quiet)] [] = Inr []
   \<and> signals (run_analysis trading_config [(''KO'', snapshot_quiet)]) = []
   \<and> total_stocks_analyzed (summary (run_analysis trading_config [(''KO'', snapshot_quiet)])) = 1
   \<and> error (summary (run_analysis trading_config [(''KO'', snapshot_quiet)])) = None"
proof -
  have b: "run_analysis_body trading_config [(''KO'', snapshot_quiet)]
      = create_result trading_config (top_signals trading_config []) 1"
    unfolding run_analysis_body_def collect_quiet by simp
  have "run_analysis trading_config [(''KO'', snapshot_quiet)]
      = \<lparr> summary = create_summary 1 [], signals = [], config = config_block trading_config \<rparr>"
    unfolding run_analysis_def b
    by (simp add: top_signals_def py_sort_reverse_def create_result_def)
  then show ?thesis
    using collect_quiet by (simp add: create_summary_def)
qed

text \<open>
  Claim C5, amended. On an empty universe the run returns the empty result: no signals,
  both counts zero and the reason \<open>No stock data available\<close>. On a universe that is not
  empty the loop over the snapshots returns its list of selections without raising, and
  if none of them passes the final filter the run returns a result with no signals,
  \<open>signals_generated\<close> and every aggregate zero, \<open>total_stocks_analyzed\<close> the number of
  snapshots, and no reason string. \<open>run_analysis\<close> returns a result on every input.
\<close>

theorem empty_results:
  "run_analysis cfg [] =
     \<lparr> summary =
         \<lparr> total_stocks_analyzed = 0, signals_generated = 0,
           avg_confidence = None, avg_risk_reward = None,
           buy_signals = None, sell_signals = None,
           total_risk_amount = None, total_position_value = None,
           error = Some ''No stock data available'' \<rparr>,
       signals = [], config = config_block cfg \<rparr>
   \<and> (stock_data \<noteq> [] \<longrightarrow>
        (\<exists>all_signals. collect_signals cfg stock_data [] = Inr all_signals
           \<and> (filter (is_valid cfg) all_signals = [] \<longrightarrow>
                run_analysis cfg stock_data =
                  \<lparr> summary =
                      \<lparr> total_stocks_analyzed = length stock_data, signals_generated = 0,
                        avg_confidence = Some 0, avg_risk_reward = Some 0,
                        buy_signals = Some 0, sell_signals = Some 0,
                        total_risk_amount = Some 0, total_position_value = Some 0,
                        error = None \<rparr>,
                    signals = [], config = config_block cfg \<rparr>)))"
proof (intro conjI impI)
  show "run_analysis cfg [] =
     \<lparr> summary =
         \<lparr> total_stocks_analyzed = 0, signals_generated = 0,
           avg_confidence = None, avg_risk_reward = None,
           buy_signals = None, sell_signals = None,
           total_risk_amount = None, total_position_value = None,
           error = Some ''No stock data available'' \<rparr>,
       signals = [], config = config_block cfg \<rparr>"
    by (simp add: run_analysis_def run_analysis_body_def create_empty_result_def)
next
  assume ne: "stock_data \<noteq> []"
  from collect_signals_total [of cfg stock_data "[]"] obtain all_signals where
    c: "collect_signals cfg stock_data [] = Inr all_signals"
    by blast
  have "filter (is_valid cfg) all_signals = [] \<longrightarrow>
                run_analysis cfg stock_data =
                  \<lparr> summary =
                      \<lparr> total_stocks_analyzed = length stock_data, signals_generated = 0,
                        avg_confidence = Some 0, avg_risk_reward = Some 0,
                        buy_signals = Some 0, sell_signals = Some 0,
                        total_risk_amount = Some 0, total_position_value = Some 0,
                        error = None \<rparr>,
                    signals = [], config = config_block cfg \<rparr>"
    using ne c
    by (simp add: run_analysis_def run_analysis_body_def top_signals_def py_sort_reverse_def
        create_result_empty)
  with c show "\<exists>all_signals. collect_signals cfg stock_data [] = Inr all_signals
           \<and> (filter (is_valid cfg) all_signals = [] \<longrightarrow>
                run_analysis cfg stock_data =
                  \<lparr> summary =
                      \<lparr> total_stocks_analyzed = length stock_data, signals_generated = 0,
                        avg_confidence = Some 0, avg_risk_reward = Some 0,
                        buy_signals = Some 0, sell_signals = Some 0,
                        total_risk_amount = Some 0, total_position_value = Some 0,
                        error = None \<rparr>,
                    signals = [], config = config_block cfg \<rparr>)"
    by blast
qed

theorem empty_results_quiet:
  "[(''KO'', snapshot_quiet)] \<noteq> []
   \<and> filter (is_valid trading_config) [] = []
   \<and> collect_signals trading_config [(''KO'', snapshot_quiet)] [] = Inr []
   \<and> run_analysis trading_config [(''KO'', snapshot_quiet)] =
       \<lparr> summary =
           \<lparr> total_stocks_analyzed = 1, signals_generated = 0,
             avg_confidence = Some 0, avg_risk_reward = Some 0,
             buy_signals = Some 0, sell_signals = Some 0,
             total_risk_amount = Some 0, total_position_value = Some 0,
             error = None \<rparr>,
         signals = [], config = config_block trading_config \<rparr>"
proof -
  have ne: "[(''KO'', snapshot_quiet)] \<noteq> []"
    by simp
  from empty_results [of trading_config "[(''KO'', snapshot_quiet)]"] ne
  obtain all_signals where
    a: "collect_signals trading_config [(''KO'', snapshot_quiet)] [] = Inr all_signals"
       "filter (is_valid trading_config) all_signals = [] \<longrightarrow>
          run_analysis trading_config [(''KO'', snapshot_quiet)] =
            \<lparr> summary =
                \<lparr> total_stocks_analyzed = length [(''KO'', snapshot_quiet)],
                  signals_generated = 0,
                  avg_confidence = Some 0, avg_risk_reward = Some 0,
                  buy_signals = Some 0, sell_signals = Some 0,
                  total_risk_amount = Some 0, total_position_value = Some 0,
                  error = None \<rparr>,
              signals = [], config = config_block trading_config \<rparr>"
    by blast
  from a(1) have "all_signals = []"
    unfolding collect_quiet by simp
  with a(2) show ?thesis
    unfolding collect_quiet by simp
qed

text \<open>
  Claim C2 fails on a SELL signal. The snapshot \<open>snapshot_gap_down\<close> (gap of -20 percent,
  four times the average volume) is selected as the Volume Breakout SELL signal with entry
  100, stop 104 and target 92, and sized at 100 shares. The claim gives the potential
  profit \<open>100 * |92 - 100| = 800\<close> and the potential loss \<open>100 * |100 - 104| = 400\<close>; the
  orchestrator computes them without the absolute value, as -800 and -400, while the risk
  amount of the same position, computed with it, is 400.
\<close>

theorem sell_signal_negative_potential_profit:
  "collect_signals trading_config [(''TSLA'', snapshot_gap_down)] [] = Inr [selection_gap_down]
   \<and> signal_type (fst selection_gap_down) = ''SELL''
   \<and> of_int (shares (snd (snd selection_gap_down)))
        * \<bar>take_profit (fst selection_gap_down) - entry_price (fst selection_gap_down)\<bar> = 800
   \<and> of_int (shares (snd (snd selection_gap_down)))
        * \<bar>entry_price (fst selection_gap_down) - stop_loss (fst selection_gap_down)\<bar> = 400
   \<and> calculate_position_info trading_config (fst selection_gap_down) snapshot_gap_down
       = Inr \<lparr> shares = 100, position_value = 10000, risk_amount = 400,
               position_percent = Some 10, potential_profit = Some (- 800),
               potential_loss = Some (- 400) \<rparr>
   \<and> map (\<lambda>d. (out_signal_type d, shares (position_sizing d), risk_amount (position_sizing d),
                potential_profit (position_sizing d), potential_loss (position_sizing d)))
        (signals (run_analysis trading_config [(''TSLA'', snapshot_gap_down)]))
       = [(''SELL'', 100, 400, Some (- 800), Some (- 400))]"
proof -
  have r: "py_round (- 800) 2 = - 800" "py_round (- 400) 2 = - 400" "py_round 400 2 = 400"
    by (simp_all add: py_round_def Let_def)
  have v: "is_valid trading_config selection_gap_down"
    by (simp add: is_valid_def selection_gap_down_def trading_config_def)
  have b: "run_analysis_body trading_config [(''TSLA'', snapshot_gap_down)]
      = create_result trading_config (top_signals trading_config [selection_gap_down]) 1"
    unfolding run_analysis_body_def collect_gap_down by simp
  have t: "top_signals trading_config [selection_gap_down] = [selection_gap_down]"
    by (simp add: top_signals_def py_sort_reverse_def v)
  have "map (\<lambda>d. (out_signal_type d, shares (position_sizing d), risk_amount (position_sizing d),
                potential_profit (position_sizing d), potential_loss (position_sizing d)))
        (signals (run_analysis trading_config [(''TSLA'', snapshot_gap_down)]))
       = [(''SELL'', 100, 400, Some (- 800), Some (- 400))]"
    unfolding run_analysis_def b t
    by (simp add: create_result_def create_signal_dict_def lookup_key_def
        selection_gap_down_def r)
  moreover have "calculate_position_info trading_config (fst selection_gap_down) snapshot_gap_down
       = Inr \<lparr> shares = 100, position_value = 10000, risk_amount = 400,
               position_percent = Some 10, potential_profit = Some (- 800),
               potential_loss = Some (- 400) \<rparr>"
    by (simp add: calculate_position_info_def selection_gap_down_def trading_config_def
        account_value_def py_int_def py_div_def Let_def)
  moreover have "signal_type (fst selection_gap_down) = ''SELL''
   \<and> of_int (shares (snd (snd selection_gap_down)))
        * \<bar>take_profit (fst selection_gap_down) - entry_price (fst selection_gap_down)\<bar>
       = (800::real)
   \<and> of_int (shares (snd (snd selection_gap_down)))
        * \<bar>entry_price (fst selection_gap_down) - stop_loss (fst selection_gap_down)\<bar>
       = (400::real)"
    by (simp add: selection_gap_down_def)
  ultimately show ?thesis
    unfolding collect_gap_down by simp
qed

subsection \<open>What a run reports\<close>

text \<open>
  The selections are collected in the order of the universe: one for each snapshot on
  which some signal survives, namely the selector's choice with its sizing. On a universe
  that is not empty, building the report never raises, and the reported list is the list
  of dictionaries of \<open>top_signals\<close>, in the same order.
\<close>

lemma collect_signals_acc:
  assumes "collect_signals cfg stock_data acc = Inr all_signals"
  shows "\<exists>new. all_signals = acc @ new
           \<and> list_all2 (\<lambda>data x. snd x = (data, snd (snd x))
                           \<and> get_best_signal cfg (analyze_stock cfg data) = Inr (Some (fst x))
                           \<and> calculate_position_info cfg (fst x) data = Inr (snd (snd x)))
               (filter (\<lambda>data. analyze_stock cfg data \<noteq> []) (map snd stock_data)) new"
  using assms
proof (induction stock_data arbitrary: acc)
  case Nil
  then show ?case
    by simp
next
  case (Cons x rest)
  obtain key data where x: "x = (key, data)"
    by (cases x)
  show ?case
  proof (cases "analyze_stock cfg data = []")
    case True
    with x Cons.prems have "collect_signals cfg rest acc = Inr all_signals"
      by simp
    from Cons.IH [OF this] True x show ?thesis
      by simp
  next
    case False
    with get_best_signal_total [of cfg "analyze_stock cfg data"] obtain best where
      b: "get_best_signal cfg (analyze_stock cfg data) = Inr (Some best)"
      by blast
    with x False Cons.prems obtain info where
      i: "calculate_position_info cfg best data = Inr info"
         "collect_signals cfg rest (acc @ [(best, data, info)]) = Inr all_signals"
      by (auto split: sum.splits)
    from Cons.IH [OF i(2)] obtain new where
      n: "all_signals = (acc @ [(best, data, info)]) @ new"
         "list_all2 (\<lambda>data x. snd x = (data, snd (snd x))
                           \<and> get_best_signal cfg (analyze_stock cfg data) = Inr (Some (fst x))
                           \<and> calculate_position_info cfg (fst x) data = Inr (snd (snd x)))
               (filter (\<lambda>data. analyze_stock cfg data \<noteq> []) (map snd rest)) new"
      by blast
    have "all_signals = acc @ ((best, data, info) # new)"
      using n(1) by simp
    moreover have "list_all2 (\<lambda>data x. snd x = (data, snd (snd x))
                           \<and> get_best_signal cfg (analyze_stock cfg data) = Inr (Some (fst x))
                           \<and> calculate_position_info cfg (fst x) data = Inr (snd (snd x)))
               (filter (\<lambda>data. analyze_stock cfg data \<noteq> []) (map snd (x # rest)))
               ((best, data, info) # new)"
      using n(2) x False b i(1) by simp
    ultimately show ?thesis
      by blast
  qed
qed

lemma collected_has_keys:
  assumes "collect_signals cfg stock_data [] = Inr all_signals" and "x \<in> set all_signals"
  shows "\<exists>d. create_signal_dict x = Inr d"
proof -
  from collect_signals_acc [OF assms(1)] have
    l: "list_all2 (\<lambda>data x. snd x = (data, snd (snd x))
                           \<and> get_best_signal cfg (analyze_stock cfg data) = Inr (Some (fst x))
                           \<and> calculate_position_info cfg (fst x) data = Inr (snd (snd x)))
               (filter (\<lambda>data. analyze_stock cfg data \<noteq> []) (map snd stock_data)) all_signals"
    by simp
  from assms(2) obtain n where n: "n < length all_signals" "all_signals ! n = x"
    by (auto simp: in_set_conv_nth)
  let ?data = "filter (\<lambda>data. analyze_stock cfg data \<noteq> []) (map snd stock_data) ! n"
  from l n have g: "get_best_signal cfg (analyze_stock cfg ?data) = Inr (Some (fst x))"
    and c: "calculate_position_info cfg (fst x) ?data = Inr (snd (snd x))"
    by (auto simp: list_all2_conv_all_nth)
  from g get_best_signal_total [of cfg "analyze_stock cfg ?data"]
  have "fst x \<in> set (analyze_stock cfg ?data)"
    by auto
  from analyze_stock_mem [OF this] analyze_Some have
    "entry_price (fst x) \<noteq> 0" "entry_price (fst x) \<noteq> stop_loss (fst x)"
    by blast+
  from calculate_position_info_total [OF this, of cfg ?data] c
  have "potential_profit (snd (snd x)) \<noteq> None" "potential_loss (snd (snd x)) \<noteq> None"
    "position_percent (snd (snd x)) \<noteq> None"
    by auto
  then show ?thesis
    by (cases x) (auto simp: create_signal_dict_def lookup_key_def)
qed

lemma create_signals_list_ok:
  assumes "\<forall>x\<in>set xs. \<exists>d. create_signal_dict x = Inr d"
  shows "\<exists>ds. create_signals_list xs acc = Inr (acc @ ds)
              \<and> map create_signal_dict xs = map Inr ds"
  using assms
proof (induction xs arbitrary: acc)
  case Nil
  then show ?case
    by simp
next
  case (Cons x xs)
  then obtain d where d: "create_signal_dict x = Inr d"
    by auto
  from Cons.IH [of "acc @ [d]"] Cons.prems obtain ds where
    "create_signals_list xs (acc @ [d]) = Inr ((acc @ [d]) @ ds)"
    "map create_signal_dict xs = map Inr ds"
    by auto
  with d have "create_signals_list (x # xs) acc = Inr (acc @ (d # ds))
      \<and> map create_signal_dict (x # xs) = map Inr (d # ds)"
    by simp
  then show ?case
    by blast
qed

lemma run_analysis_reports_top_signals:
  assumes "stock_data \<noteq> []"
  shows "\<exists>all_signals ds. collect_signals cfg stock_data [] = Inr all_signals
           \<and> map create_signal_dict (top_signals cfg all_signals) = map Inr ds
           \<and> run_analysis cfg stock_data =
               \<lparr> summary = create_summary (length stock_data) ds, signals = ds,
                 config = config_block cfg \<rparr>"
proof -
  from collect_signals_total [of cfg stock_data "[]"] obtain all_signals where
    c: "collect_signals cfg stock_data [] = Inr all_signals"
    by blast
  have "set (top_signals cfg all_signals) \<subseteq> set all_signals"
    using set_take_subset [of 10 "py_sort_reverse ranking_key (filter (is_valid cfg) all_signals)"]
    by (auto simp: top_signals_def set_py_sort_reverse)
  with collected_has_keys [OF c] have
    "\<forall>x\<in>set (top_signals cfg all_signals). \<exists>d. create_signal_dict x = Inr d"
    by blast
  from create_signals_list_ok [OF this, of "[]"] obtain ds where
    d: "create_signals_list (top_signals cfg all_signals) [] = Inr ds"
       "map create_signal_dict (top_signals cfg all_signals) = map Inr ds"
    by auto
  have "run_analysis cfg stock_data =
               \<lparr> summary = create_summary (length stock_data) ds, signals = ds,
                 config = config_block cfg \<rparr>"
    using assms c d(1)
    by (simp add: run_analysis_def run_analysis_body_def create_result_def)
  with c d(2) show ?thesis
    by blast
qed

end
